theory Spec2Isabelle
  imports Main "HOL-Library.Word"
begin

section \<open>Far::PatchTables: the patch table and its evaluation entry points\<close>

text \<open>
  A shallow embedding of \<^verbatim>\<open>opensubdiv/far/patchTables.h\<close>: the three template methods
  \<^verbatim>\<open>PatchTables::Evaluate\<close>, \<^verbatim>\<open>PatchTables::EvaluateFaceVarying\<close> and
  \<^verbatim>\<open>PatchTables::EvaluateBilinear\<close>, with the part of the container they read.

  The methods are templates over a source buffer \<^verbatim>\<open>T\<close> and a destination \<^verbatim>\<open>U\<close>, and call
  the weight functions and interpolation routines of \<^verbatim>\<open>far/interpolate.h\<close>. Those are
  parameters of the model (the record \<open>primvar_ops\<close>), so every theorem about the
  dispatch holds for whatever they compute. Parametric coordinates are of an arbitrary
  type \<open>'f\<close>; no floating-point arithmetic takes place in the header itself.

  \<^verbatim>\<open>assert\<close> is modelled as compiled in (no \<^verbatim>\<open>NDEBUG\<close>): a failed assertion ends the call
  with \<open>Inl (f, d)\<close>, where \<open>f\<close> names the assertion and \<open>d\<close> is the destination as the call
  left it. A read outside a table, undefined in C++, ends the call the same way with
  \<open>OutOfRange\<close>.
\<close>

subsection \<open>Data model\<close>

type_synonym Index = int

text \<open>
  Modelled from the spec: the enumerators of \<^verbatim>\<open>PatchDescriptor::Type\<close>. The enum is
  declared in \<^verbatim>\<open>far/patchDescriptor.h\<close>, outside the header modelled here, which names
  the nine enumerators below.
\<close>

datatype Type =
    REGULAR | SINGLE_CREASE | BOUNDARY | CORNER
  | GREGORY | GREGORY_BOUNDARY | GREGORY_BASIS
  | QUADS | TRIANGLES

text \<open>
  Modelled from the spec: the ordinal of each enumerator, in the order the spec lists
  them (``REGULAR, SINGLE_CREASE, BOUNDARY, CORNER, GREGORY, GREGORY_BOUNDARY,
  GREGORY_BASIS, QUADS, TRIANGLES''). The comparisons \<^verbatim>\<open>ptype>=REGULAR\<close> and
  \<^verbatim>\<open>ptype<=CORNER\<close> of \<^verbatim>\<open>Evaluate\<close> compare these ordinals.
\<close>

fun type_ord :: "Type \<Rightarrow> nat" where
  "type_ord REGULAR = 0"
| "type_ord SINGLE_CREASE = 1"
| "type_ord BOUNDARY = 2"
| "type_ord CORNER = 3"
| "type_ord GREGORY = 4"
| "type_ord GREGORY_BOUNDARY = 5"
| "type_ord GREGORY_BASIS = 6"
| "type_ord QUADS = 7"
| "type_ord TRIANGLES = 8"

text \<open>
  Modelled from the spec: a \<^verbatim>\<open>PatchDescriptor\<close> is a type together with a number of control
  vertices (the class is declared in \<^verbatim>\<open>far/patchDescriptor.h\<close>).
\<close>

record PatchDescriptor =
  GetType :: Type
  GetNumControlVertices :: nat

text \<open>The handle, as the header declares it.\<close>

record PatchHandle =
  arrayIndex :: Index  \<comment> \<open>array index of the patch\<close>
  patchIndex :: Index  \<comment> \<open>absolute index of the patch\<close>
  vertIndex :: Index   \<comment> \<open>relative offset to the first CV of the patch in array\<close>

text \<open>
  Modelled from the spec: \<^verbatim>\<open>struct PatchArray\<close> is declared in the header and defined in
  \<^verbatim>\<open>patchTables.cpp\<close>. The spec has it as a contiguous run of patches sharing one
  descriptor, storing the run's starting offsets into the control-vertex table and the
  patch-param table.
\<close>

record PatchArray =
  pa_desc :: PatchDescriptor
  pa_numPatches :: nat
  pa_vertIndex :: Index
  pa_patchIndex :: Index

text \<open>
  Modelled from the spec: one bitfield per patch (\<^verbatim>\<open>PatchParam\<close> is declared in
  \<^verbatim>\<open>far/patchParam.h\<close>). \<^verbatim>\<open>BitField::Clear()\<close> yields the zeroed bitfield.
\<close>

type_synonym BitField = "32 word"

record PatchParam =
  bitField :: BitField

definition BitField_Clear :: BitField where
  "BitField_Clear = 0"

text \<open>
  Modelled from the spec: \<^verbatim>\<open>struct FVarPatchChannel\<close> is declared in the header and defined
  in \<^verbatim>\<open>patchTables.cpp\<close>. The spec has it as per-channel parallel tables of patch types
  and value indices; the value-index table is kept here as one slice per patch.
\<close>

record FVarPatchChannel =
  fv_patchTypes :: "Type list"
  fv_patchValues :: "Index list list"

text \<open>
  The members of \<^verbatim>\<open>PatchTables\<close> the evaluation reads: \<^verbatim>\<open>_patchArrays\<close>,
  \<^verbatim>\<open>_patchVerts\<close>, \<^verbatim>\<open>_paramTable\<close>, \<^verbatim>\<open>_endcapVertexStencilTables\<close> (a pointer that may be
  null, to a stencil table of an arbitrary type \<open>'st\<close>) and \<^verbatim>\<open>_fvarChannels\<close>.
\<close>

record 'st PatchTables =
  patchArrays :: "PatchArray list"
  patchVerts :: "Index list"
  paramTable :: "PatchParam list"
  endcapVertexStencilTables :: "'st option"
  fvarChannels :: "FVarPatchChannel list"

subsection \<open>Failures\<close>

datatype failure =
    NotFeatureAdaptive     \<comment> \<open>\<^verbatim>\<open>assert(IsFeatureAdaptive())\<close>\<close>
  | MissingStencilTables   \<comment> \<open>\<^verbatim>\<open>assert(_endcapVertexStencilTables)\<close>\<close>
  | UnsupportedType        \<comment> \<open>\<^verbatim>\<open>assert(0)\<close>\<close>
  | NotImplemented         \<comment> \<open>\<^verbatim>\<open>assert("not implemented yet")\<close>\<close>
  | BadPatchSize           \<comment> \<open>\<^verbatim>\<open>assert(cvs.size()==4)\<close>\<close>
  | OutOfRange             \<comment> \<open>a read outside a table\<close>

type_synonym 'u outcome = "(failure \<times> 'u) + 'u"

text \<open>
  \<^verbatim>\<open>assert(c)\<close> followed by the rest \<open>k\<close> of the function body: the call goes on when \<open>c\<close>
  holds and is aborted otherwise, leaving the destination \<open>d\<close> as it is.
\<close>

definition c_assert :: "bool \<Rightarrow> failure \<Rightarrow> 'u \<Rightarrow> 'u outcome \<Rightarrow> 'u outcome" where
  "c_assert c f d k = (if c then k else Inl (f, d))"

text \<open>
  The condition of \<^verbatim>\<open>assert("not implemented yet")\<close> is a string literal: an array that
  converts to the address of its first character, which is never null, so the
  condition is true whatever the text.
\<close>

definition literal_as_condition :: "string \<Rightarrow> bool" where
  "literal_as_condition s = True"

subsection \<open>Table accessors\<close>

text \<open>\<^verbatim>\<open>xs[i]\<close> on a vector, with the read outside the vector made explicit.\<close>

definition at :: "'a list \<Rightarrow> Index \<Rightarrow> 'a option" where
  "at xs i = (if 0 \<le> i \<and> i < int (length xs) then Some (xs ! nat i) else None)"

text \<open>The \<open>n\<close> entries of a vector from offset \<open>off\<close> on, when they all lie inside it.\<close>

definition slice :: "'a list \<Rightarrow> Index \<Rightarrow> nat \<Rightarrow> 'a list option" where
  "slice xs off n =
     (if 0 \<le> off \<and> nat off + n \<le> length xs then Some (take n (drop (nat off) xs)) else None)"

text \<open>
  Modelled from the spec: \<^verbatim>\<open>GetPatchArrayDescriptor(array)\<close>, defined in
  \<^verbatim>\<open>patchTables.cpp\<close>, resolves an array index to the descriptor of that patch array.
\<close>

definition GetPatchArrayDescriptor :: "'st PatchTables \<Rightarrow> Index \<Rightarrow> PatchDescriptor option" where
  "GetPatchArrayDescriptor tbl array = map_option pa_desc (at (patchArrays tbl) array)"

text \<open>
  Modelled from the spec: \<^verbatim>\<open>GetPatchVertices(handle)\<close>, defined in \<^verbatim>\<open>patchTables.cpp\<close>,
  resolves a handle to the patch's control-vertex slice: the contiguous run of the
  control-vertex table that starts at the array's offset plus the handle's relative
  offset and has as many entries as the array's descriptor has control vertices.
\<close>

definition GetPatchVertices :: "'st PatchTables \<Rightarrow> PatchHandle \<Rightarrow> Index list option" where
  "GetPatchVertices tbl handle =
     (case at (patchArrays tbl) (arrayIndex handle) of
        None \<Rightarrow> None
      | Some pa \<Rightarrow>
          slice (patchVerts tbl) (pa_vertIndex pa + vertIndex handle)
            (GetNumControlVertices (pa_desc pa)))"

text \<open>
  Modelled from the spec: \<^verbatim>\<open>IsFeatureAdaptive()\<close>, defined in \<^verbatim>\<open>patchTables.cpp\<close>,
  ``reports whether any non-bilinear-quad patch exists'': some patch array of a type
  other than \<open>QUADS\<close> holds at least one patch.
\<close>

definition IsFeatureAdaptive :: "'st PatchTables \<Rightarrow> bool" where
  "IsFeatureAdaptive tbl =
     list_ex (\<lambda>pa. GetType (pa_desc pa) \<noteq> QUADS \<and> 0 < pa_numPatches pa) (patchArrays tbl)"

text \<open>
  Modelled from the spec: \<^verbatim>\<open>GetFVarPatchType(channel, handle)\<close> and
  \<^verbatim>\<open>GetFVarPatchValues(channel, handle)\<close>, defined in \<^verbatim>\<open>patchTables.cpp\<close>, resolve the
  channel's own patch type and value-index slice for the patch the handle identifies
  (by its absolute patch index).
\<close>

definition GetFVarPatchType :: "'st PatchTables \<Rightarrow> Index \<Rightarrow> PatchHandle \<Rightarrow> Type option" where
  "GetFVarPatchType tbl channel handle =
     (case at (fvarChannels tbl) channel of
        None \<Rightarrow> None
      | Some c \<Rightarrow> at (fv_patchTypes c) (patchIndex handle))"

definition GetFVarPatchValues :: "'st PatchTables \<Rightarrow> Index \<Rightarrow> PatchHandle \<Rightarrow> Index list option" where
  "GetFVarPatchValues tbl channel handle =
     (case at (fvarChannels tbl) channel of
        None \<Rightarrow> None
      | Some c \<Rightarrow> at (fv_patchValues c) (patchIndex handle))"

subsection \<open>The capabilities the templates are instantiated with\<close>

text \<open>
  \<open>Clear\<close> is \<^verbatim>\<open>U::Clear()\<close>. The weight functions fill the arrays \<^verbatim>\<open>Q\<close>, \<^verbatim>\<open>Qd1\<close>, \<^verbatim>\<open>Qd2\<close>
  from the bitfield and \<open>(s, t)\<close>; \<open>'w\<close> is the type of the three arrays together. The
  interpolation routines take the control vertices (\<^verbatim>\<open>cvs.begin()\<close>, here the slice
  itself), the weights, the source and the destination, and return the destination as
  they leave it. \<^verbatim>\<open>InterpolateGregoryPatch\<close> takes the stencil table and an index into it
  instead of control vertices, and \<open>(s, t)\<close> as well.
\<close>

record ('f, 'w, 'st, 't, 'u) primvar_ops =
  Clear :: "'u \<Rightarrow> 'u"
  GetBSplineWeights :: "BitField \<Rightarrow> 'f \<Rightarrow> 'f \<Rightarrow> 'w"
  GetBezierWeights :: "BitField \<Rightarrow> 'f \<Rightarrow> 'f \<Rightarrow> 'w"
  GetBilinearWeights :: "BitField \<Rightarrow> 'f \<Rightarrow> 'f \<Rightarrow> 'w"
  InterpolateRegularPatch :: "Index list \<Rightarrow> 'w \<Rightarrow> 't \<Rightarrow> 'u \<Rightarrow> 'u"
  InterpolateBoundaryPatch :: "Index list \<Rightarrow> 'w \<Rightarrow> 't \<Rightarrow> 'u \<Rightarrow> 'u"
  InterpolateCornerPatch :: "Index list \<Rightarrow> 'w \<Rightarrow> 't \<Rightarrow> 'u \<Rightarrow> 'u"
  InterpolateBilinearPatch :: "Index list \<Rightarrow> 'w \<Rightarrow> 't \<Rightarrow> 'u \<Rightarrow> 'u"
  InterpolateGregoryPatch :: "'st \<Rightarrow> Index \<Rightarrow> 'f \<Rightarrow> 'f \<Rightarrow> 'w \<Rightarrow> 't \<Rightarrow> 'u \<Rightarrow> 'u"

subsection \<open>PatchTables::Evaluate\<close>

text \<open>
  The range test of \<^verbatim>\<open>Evaluate\<close>:
  \<^verbatim>\<open>ptype>=PatchDescriptor::REGULAR and ptype<=PatchDescriptor::CORNER\<close>.
\<close>

definition in_bspline_band :: "Type \<Rightarrow> bool" where
  "in_bspline_band ptype \<longleftrightarrow>
     type_ord REGULAR \<le> type_ord ptype \<and> type_ord ptype \<le> type_ord CORNER"

text \<open>
  The \<^verbatim>\<open>switch (ptype)\<close> inside the range test, entered with the B-spline weights \<open>Q\<close>
  and the control vertices \<open>cvs\<close>. The case \<open>SINGLE_CREASE\<close> only breaks (its call is
  commented out in the source).
\<close>

definition bspline_switch ::
  "('f, 'w, 'st, 't, 'u) primvar_ops \<Rightarrow> Type \<Rightarrow> Index list \<Rightarrow> 'w \<Rightarrow> 't \<Rightarrow> 'u \<Rightarrow> 'u outcome"
where
  "bspline_switch ops ptype cvs Q src dst =
     (case ptype of
        REGULAR \<Rightarrow> Inr (InterpolateRegularPatch ops cvs Q src dst)
      | SINGLE_CREASE \<Rightarrow> Inr dst
      | BOUNDARY \<Rightarrow> Inr (InterpolateBoundaryPatch ops cvs Q src dst)
      | CORNER \<Rightarrow> Inr (InterpolateCornerPatch ops cvs Q src dst)
      | GREGORY \<Rightarrow> c_assert False UnsupportedType dst (Inr dst)
      | GREGORY_BOUNDARY \<Rightarrow> c_assert False UnsupportedType dst (Inr dst)
      | _ \<Rightarrow> c_assert False UnsupportedType dst (Inr dst))"

definition Evaluate ::
  "('f, 'w, 'st, 't, 'u) primvar_ops \<Rightarrow> 'st PatchTables \<Rightarrow> PatchHandle \<Rightarrow> 'f \<Rightarrow> 'f \<Rightarrow> 't \<Rightarrow> 'u
     \<Rightarrow> 'u outcome"
where
  "Evaluate ops tbl handle s t src dst =
     c_assert (IsFeatureAdaptive tbl) NotFeatureAdaptive dst
      (case at (paramTable tbl) (patchIndex handle) of
         None \<Rightarrow> Inl (OutOfRange, dst)
       | Some param \<Rightarrow>
      (case GetPatchArrayDescriptor tbl (arrayIndex handle) of
         None \<Rightarrow> Inl (OutOfRange, dst)
       | Some desc \<Rightarrow>
           let bits = bitField param;
               ptype = GetType desc;
               dst = Clear ops dst
           in
             if in_bspline_band ptype then
               (let Q = GetBSplineWeights ops bits s t in
                case GetPatchVertices tbl handle of
                  None \<Rightarrow> Inl (OutOfRange, dst)
                | Some cvs \<Rightarrow> bspline_switch ops ptype cvs Q src dst)
             else if ptype = GREGORY_BASIS then
               (case endcapVertexStencilTables tbl of
                  None \<Rightarrow> Inl (MissingStencilTables, dst)
                | Some stencils \<Rightarrow>
                    let Q = GetBezierWeights ops bits s t in
                    Inr (InterpolateGregoryPatch ops stencils (vertIndex handle) s t Q src dst))
             else if ptype = QUADS then
               (case GetPatchVertices tbl handle of
                  None \<Rightarrow> Inl (OutOfRange, dst)
                | Some cvs \<Rightarrow>
                    let Q = GetBilinearWeights ops bits s t in
                    Inr (InterpolateBilinearPatch ops cvs Q src dst))
             else c_assert False UnsupportedType dst (Inr dst)))"

subsection \<open>PatchTables::EvaluateFaceVarying\<close>

text \<open>
  The method does not call \<^verbatim>\<open>dst.Clear()\<close>. In \<^verbatim>\<open>case PatchDescriptor::TRIANGLES\<close> the
  assertion is followed by no \<^verbatim>\<open>break\<close>, so control goes on into
  \<^verbatim>\<open>case PatchDescriptor::REGULAR\<close>.
\<close>

definition EvaluateFaceVarying ::
  "('f, 'w, 'st, 't, 'u) primvar_ops \<Rightarrow> 'st PatchTables \<Rightarrow> Index \<Rightarrow> PatchHandle \<Rightarrow> 'f \<Rightarrow> 'f \<Rightarrow> 't
     \<Rightarrow> 'u \<Rightarrow> 'u outcome"
where
  "EvaluateFaceVarying ops tbl channel handle s t src dst =
     (case GetFVarPatchValues tbl channel handle of
        None \<Rightarrow> Inl (OutOfRange, dst)
      | Some cvs \<Rightarrow>
     (case GetFVarPatchType tbl channel handle of
        None \<Rightarrow> Inl (OutOfRange, dst)
      | Some type \<Rightarrow>
          let bits = BitField_Clear;
              regular = Inr (InterpolateRegularPatch ops cvs (GetBSplineWeights ops bits s t) src dst)
          in
            (case type of
               QUADS \<Rightarrow>
                 Inr (InterpolateBilinearPatch ops cvs (GetBilinearWeights ops bits s t) src dst)
             | TRIANGLES \<Rightarrow>
                 c_assert (literal_as_condition ''not implemented yet'') NotImplemented dst regular
             | REGULAR \<Rightarrow> regular
             | BOUNDARY \<Rightarrow>
                 Inr (InterpolateBoundaryPatch ops cvs (GetBSplineWeights ops bits s t) src dst)
             | CORNER \<Rightarrow>
                 Inr (InterpolateCornerPatch ops cvs (GetBSplineWeights ops bits s t) src dst)
             | _ \<Rightarrow> c_assert False UnsupportedType dst (Inr dst))))"

subsection \<open>PatchTables::EvaluateBilinear\<close>

definition EvaluateBilinear ::
  "('f, 'w, 'st, 't, 'u) primvar_ops \<Rightarrow> 'st PatchTables \<Rightarrow> PatchHandle \<Rightarrow> 'f \<Rightarrow> 'f \<Rightarrow> 't \<Rightarrow> 'u
     \<Rightarrow> 'u outcome"
where
  "EvaluateBilinear ops tbl handle s t src dst =
     (case GetPatchVertices tbl handle of
        None \<Rightarrow> Inl (OutOfRange, dst)
      | Some cvs \<Rightarrow>
          c_assert (length cvs = 4) BadPatchSize dst
           (case at (paramTable tbl) (patchIndex handle) of
              None \<Rightarrow> Inl (OutOfRange, dst)
            | Some param \<Rightarrow>
                let bits = bitField param;
                    dst = Clear ops dst;
                    Q = GetBilinearWeights ops bits s t
                in Inr (InterpolateBilinearPatch ops cvs Q src dst)))"

subsection \<open>Tables that differ in the stored patch types only\<close>

text \<open>
  \<open>retype f tbl\<close> is \<open>tbl\<close> with the type \<open>ty\<close> of every patch array's descriptor replaced by
  \<open>f ty\<close>; sizes, offsets and all other tables stay as they are.
\<close>

definition retype :: "(Type \<Rightarrow> Type) \<Rightarrow> 'st PatchTables \<Rightarrow> 'st PatchTables" where
  "retype f tbl =
     tbl\<lparr>patchArrays :=
       map (\<lambda>pa. pa\<lparr>pa_desc := (pa_desc pa)\<lparr>GetType := f (GetType (pa_desc pa))\<rparr>\<rparr>)
         (patchArrays tbl)\<rparr>"

subsection \<open>A recording instance and two small tables\<close>

text \<open>
  An instance of the capabilities that computes nothing and records everything: weights
  are the name of the basis with the arguments it was asked for, and the destination is
  the list of the contributions accumulated into it, in order. \<open>Clear\<close> empties the list;
  each interpolation routine appends its contribution and clears nothing, as a loop of
  \<^verbatim>\<open>dst.AddWithWeight(...)\<close> does. Coordinates are integers, the source buffer and the
  stencil table are identified by a number.
\<close>

datatype basis = BSpline | Bezier | Bilinear

datatype weights = Weights basis BitField int int

datatype contribution =
    RegularPatch "Index list" weights nat
  | BoundaryPatch "Index list" weights nat
  | CornerPatch "Index list" weights nat
  | BilinearPatch "Index list" weights nat
  | GregoryPatch nat Index int int weights nat

definition recording_ops :: "(int, weights, nat, nat, contribution list) primvar_ops" where
  "recording_ops =
     \<lparr> Clear = (\<lambda>dst. []),
       GetBSplineWeights = Weights BSpline,
       GetBezierWeights = Weights Bezier,
       GetBilinearWeights = Weights Bilinear,
       InterpolateRegularPatch = (\<lambda>cvs Q src dst. dst @ [RegularPatch cvs Q src]),
       InterpolateBoundaryPatch = (\<lambda>cvs Q src dst. dst @ [BoundaryPatch cvs Q src]),
       InterpolateCornerPatch = (\<lambda>cvs Q src dst. dst @ [CornerPatch cvs Q src]),
       InterpolateBilinearPatch = (\<lambda>cvs Q src dst. dst @ [BilinearPatch cvs Q src]),
       InterpolateGregoryPatch =
         (\<lambda>stencils i s t Q src dst. dst @ [GregoryPatch stencils i s t Q src]) \<rparr>"

text \<open>
  A feature-adaptive table of five arrays with one patch each: a regular patch, a
  single-crease patch, a bilinear quad, a Gregory-basis patch (whose control vertices
  live in the stencil table, not in the control-vertex table) and a legacy Gregory
  patch. Its one face-varying channel has a quad, a triangle and three bicubic patches.
\<close>

definition adaptive_array :: "Type \<Rightarrow> nat \<Rightarrow> Index \<Rightarrow> Index \<Rightarrow> PatchArray" where
  "adaptive_array ty ncvs vert patch =
     \<lparr> pa_desc = \<lparr> GetType = ty, GetNumControlVertices = ncvs \<rparr>,
       pa_numPatches = 1, pa_vertIndex = vert, pa_patchIndex = patch \<rparr>"

definition adaptive_tables :: "nat PatchTables" where
  "adaptive_tables =
     \<lparr> patchArrays =
         [adaptive_array REGULAR 16 0 0,
          adaptive_array SINGLE_CREASE 16 16 1,
          adaptive_array QUADS 4 32 2,
          adaptive_array GREGORY_BASIS 20 36 3,
          adaptive_array GREGORY 4 36 4],
       patchVerts =
         [0, 1, 2, 3, 4, 5, 6, 7, 8, 9, 10, 11, 12, 13, 14, 15,
          4, 5, 6, 7, 8, 9, 10, 11, 12, 13, 14, 15, 16, 17, 18, 19,
          20, 21, 22, 23,
          24, 25, 26, 27],
       paramTable =
         [\<lparr>bitField = 0\<rparr>, \<lparr>bitField = 1\<rparr>, \<lparr>bitField = 2\<rparr>, \<lparr>bitField = 3\<rparr>,
          \<lparr>bitField = 4\<rparr>],
       endcapVertexStencilTables = Some 7,
       fvarChannels =
         [\<lparr> fv_patchTypes = [QUADS, TRIANGLES, REGULAR, BOUNDARY, GREGORY],
            fv_patchValues = [[0, 1, 2, 3], [4, 5, 6], [], [], []] \<rparr>] \<rparr>"

text \<open>A uniform table: one array of two bilinear quads.\<close>

definition uniform_tables :: "nat PatchTables" where
  "uniform_tables =
     \<lparr> patchArrays =
         [\<lparr> pa_desc = \<lparr> GetType = QUADS, GetNumControlVertices = 4 \<rparr>,
            pa_numPatches = 2, pa_vertIndex = 0, pa_patchIndex = 0 \<rparr>],
       patchVerts = [0, 1, 4, 3, 1, 2, 5, 4],
       paramTable = [\<lparr>bitField = 0\<rparr>, \<lparr>bitField = 1\<rparr>],
       endcapVertexStencilTables = None,
       fvarChannels = [] \<rparr>"

text \<open>The handle of the first patch of array \<open>a\<close>, the \<open>p\<close>-th patch of the table.\<close>

definition first_patch :: "Index \<Rightarrow> Index \<Rightarrow> PatchHandle" where
  "first_patch a p = \<lparr> arrayIndex = a, patchIndex = p, vertIndex = 0 \<rparr>"

section \<open>Properties of the evaluation entry points\<close>

subsection \<open>Facts about the accessors\<close>

lemmas example_defs =
  recording_ops_def adaptive_tables_def uniform_tables_def first_patch_def adaptive_array_def

lemmas accessor_defs =
  at_def slice_def GetPatchArrayDescriptor_def GetPatchVertices_def IsFeatureAdaptive_def
  GetFVarPatchType_def GetFVarPatchValues_def

lemma at_SomeD: "at xs i = Some x \<Longrightarrow> x \<in> set xs"
  by (auto simp: at_def split: if_splits)

lemma at_map: "at (map g xs) i = map_option g (at xs i)"
  by (auto simp: at_def nat_less_iff)

lemma IsFeatureAdaptive_of_array:
  "at (patchArrays tbl) i = Some pa \<Longrightarrow> GetType (pa_desc pa) \<noteq> QUADS \<Longrightarrow> 0 < pa_numPatches pa
     \<Longrightarrow> IsFeatureAdaptive tbl"
  unfolding IsFeatureAdaptive_def list_ex_iff
  by (blast dest: at_SomeD)

lemma not_IsFeatureAdaptive_only_quads:
  "list_all (\<lambda>pa. GetType (pa_desc pa) = QUADS) (patchArrays tbl) \<Longrightarrow> \<not> IsFeatureAdaptive tbl"
  by (auto simp: IsFeatureAdaptive_def list_ex_iff list_all_iff)

lemma in_bspline_band_iff:
  "in_bspline_band ty \<longleftrightarrow> ty = REGULAR \<or> ty = SINGLE_CREASE \<or> ty = BOUNDARY \<or> ty = CORNER"
  by (cases ty) (simp_all add: in_bspline_band_def)

lemma GetPatchVertices_retype:
  "GetPatchVertices (retype f tbl) handle = GetPatchVertices tbl handle"
  by (simp add: GetPatchVertices_def retype_def at_map split: option.splits)

lemma paramTable_retype: "paramTable (retype f tbl) = paramTable tbl"
  by (simp add: retype_def)

text \<open>The Gregory-basis branch of \<open>Evaluate\<close>, for a patch of the table.\<close>

lemma Evaluate_GREGORY_BASIS:
  assumes "at (patchArrays tbl) (arrayIndex handle) = Some pa"
    and "GetType (pa_desc pa) = GREGORY_BASIS"
    and "0 < pa_numPatches pa"
    and "at (paramTable tbl) (patchIndex handle) = Some param"
  shows "Evaluate ops tbl handle s t src dst =
           (case endcapVertexStencilTables tbl of
              None \<Rightarrow> Inl (MissingStencilTables, Clear ops dst)
            | Some stencils \<Rightarrow>
                Inr (InterpolateGregoryPatch ops stencils (vertIndex handle) s t
                       (GetBezierWeights ops (bitField param) s t) src (Clear ops dst)))"
proof -
  have "IsFeatureAdaptive tbl"
    using assms(1-3) by (auto intro: IsFeatureAdaptive_of_array)
  then show ?thesis
    using assms
    by (simp add: Evaluate_def c_assert_def GetPatchArrayDescriptor_def in_bspline_band_iff
        split: option.splits)
qed

subsection \<open>Single-crease patches\<close>

text \<open>
  C1. For a patch of the table whose array descriptor has type \<open>SINGLE_CREASE\<close>,
  \<open>Evaluate\<close> returns normally, for every \<open>(s, t)\<close>, source and destination, and the
  destination it returns is exactly the cleared one: nothing is accumulated and no
  assertion fails. The patch is one of the table: its array exists and is not empty,
  it has an entry in the param table and its control-vertex slice lies in the
  control-vertex table.
\<close>

theorem Evaluate_single_crease:
  assumes "at (patchArrays tbl) (arrayIndex handle) = Some pa"
    and "GetType (pa_desc pa) = SINGLE_CREASE"
    and "0 < pa_numPatches pa"
    and "at (paramTable tbl) (patchIndex handle) = Some param"
    and "GetPatchVertices tbl handle = Some cvs"
  shows "Evaluate ops tbl handle s t src dst = Inr (Clear ops dst)"
proof -
  have "IsFeatureAdaptive tbl"
    using assms(1-3) by (auto intro: IsFeatureAdaptive_of_array)
  then show ?thesis
    using assms
    by (simp add: Evaluate_def c_assert_def GetPatchArrayDescriptor_def in_bspline_band_iff
        bspline_switch_def)
qed

theorem Evaluate_single_crease_witness:
  "Evaluate recording_ops adaptive_tables (first_patch 1 1) 0 1 5
     [RegularPatch [] (Weights BSpline 0 0 0) 0] = Inr []"
proof -
  let ?pa = "adaptive_array SINGLE_CREASE 16 16 1"
  have 1: "at (patchArrays adaptive_tables) (arrayIndex (first_patch 1 1)) = Some ?pa"
    by (simp add: at_def adaptive_tables_def first_patch_def)
  have 2: "GetType (pa_desc ?pa) = SINGLE_CREASE" "0 < pa_numPatches ?pa"
    by (simp_all add: adaptive_array_def)
  have 3: "at (paramTable adaptive_tables) (patchIndex (first_patch 1 1)) = Some \<lparr>bitField = 1\<rparr>"
    by (simp add: at_def adaptive_tables_def first_patch_def)
  have 4: "GetPatchVertices adaptive_tables (first_patch 1 1)
             = Some [4, 5, 6, 7, 8, 9, 10, 11, 12, 13, 14, 15, 16, 17, 18, 19]"
    by (simp add: example_defs accessor_defs)
  show ?thesis
    using Evaluate_single_crease [OF 1 2 3 4, of recording_ops 0 1 5]
    by (simp add: recording_ops_def)
qed

subsection \<open>Bilinear quads: Evaluate against EvaluateBilinear\<close>



subsection \<open>Face-varying patches\<close>

text \<open>
  C3 (refuted on the code). The specification makes a channel patch of type \<open>TRIANGLES\<close>
  a not-implemented contract violation of \<open>EvaluateFaceVarying\<close>. The code does not
  fail there: the condition of its assertion is a string literal, which is true, and
  the case has no \<^verbatim>\<open>break\<close>. On the triangle of the channel below (value indices 4, 5,
  6) the call returns normally, with a regular-patch sample on B-spline weights.
\<close>

theorem EvaluateFaceVarying_triangles_falls_through:
  "GetFVarPatchType adaptive_tables 0 (first_patch 2 1) = Some TRIANGLES \<and>
   EvaluateFaceVarying recording_ops adaptive_tables 0 (first_patch 2 1) 0 1 5 []
     = Inr [RegularPatch [4, 5, 6] (Weights BSpline 0 0 1) 5]"
  by (simp add: EvaluateFaceVarying_def c_assert_def literal_as_condition_def BitField_Clear_def
      example_defs accessor_defs)

text \<open>
  C4 (refuted on the code). The specification has every entry point clear the
  destination before it accumulates, so that the output never depends on what the
  destination held. \<open>EvaluateFaceVarying\<close> never calls \<^verbatim>\<open>dst.Clear()\<close>: on the quad of the
  channel below, a destination that already holds a contribution comes back with that
  contribution and the new sample, and an empty one with the sample alone.
\<close>

theorem EvaluateFaceVarying_keeps_prior_contents:
  "EvaluateFaceVarying recording_ops adaptive_tables 0 (first_patch 2 0) 0 1 5
     [CornerPatch [9] (Weights BSpline 0 0 0) 8]
     = Inr [CornerPatch [9] (Weights BSpline 0 0 0) 8,
            BilinearPatch [0, 1, 2, 3] (Weights Bilinear 0 0 1) 5] \<and>
   EvaluateFaceVarying recording_ops adaptive_tables 0 (first_patch 2 0) 0 1 5 []
     = Inr [BilinearPatch [0, 1, 2, 3] (Weights Bilinear 0 0 1) 5]"
  by (simp add: EvaluateFaceVarying_def c_assert_def BitField_Clear_def
      example_defs accessor_defs)

text \<open>
  C10. The outcome of \<open>EvaluateFaceVarying\<close> is a function of the channel's value-index
  slice and patch type for the handle (with the capabilities, \<open>(s, t)\<close>, the source and
  the destination): two tables that agree on these two give the same outcome. In
  particular the vertex control-vertex table is not read: replacing it by any other
  changes nothing.
\<close>

theorem EvaluateFaceVarying_reads_channel_only:
  "(GetFVarPatchValues tbl channel handle = GetFVarPatchValues tbl' channel handle \<and>
    GetFVarPatchType tbl channel handle = GetFVarPatchType tbl' channel handle
      \<longrightarrow> EvaluateFaceVarying ops tbl channel handle s t src dst =
            EvaluateFaceVarying ops tbl' channel handle s t src dst)
   \<and> EvaluateFaceVarying ops (tbl\<lparr>patchVerts := pv\<rparr>) channel handle s t src dst =
       EvaluateFaceVarying ops tbl channel handle s t src dst"
proof (intro conjI impI)
  assume "GetFVarPatchValues tbl channel handle = GetFVarPatchValues tbl' channel handle \<and>
    GetFVarPatchType tbl channel handle = GetFVarPatchType tbl' channel handle"
  then show "EvaluateFaceVarying ops tbl channel handle s t src dst =
            EvaluateFaceVarying ops tbl' channel handle s t src dst"
    by (simp add: EvaluateFaceVarying_def cong: option.case_cong)
next
  have "GetFVarPatchValues (tbl\<lparr>patchVerts := pv\<rparr>) channel handle
          = GetFVarPatchValues tbl channel handle"
    and "GetFVarPatchType (tbl\<lparr>patchVerts := pv\<rparr>) channel handle
          = GetFVarPatchType tbl channel handle"
    by (simp_all add: GetFVarPatchValues_def GetFVarPatchType_def)
  then show "EvaluateFaceVarying ops (tbl\<lparr>patchVerts := pv\<rparr>) channel handle s t src dst =
       EvaluateFaceVarying ops tbl channel handle s t src dst"
    by (simp add: EvaluateFaceVarying_def cong: option.case_cong)
qed

theorem EvaluateFaceVarying_reads_channel_only_witness:
  "EvaluateFaceVarying recording_ops adaptive_tables 0 (first_patch 0 3) 0 1 5 []
     = EvaluateFaceVarying recording_ops
         (uniform_tables\<lparr>fvarChannels := fvarChannels adaptive_tables\<rparr>) 0 (first_patch 0 3) 0 1 5 []
   \<and> EvaluateFaceVarying recording_ops (adaptive_tables\<lparr>patchVerts := [7, 7, 7]\<rparr>) 0
       (first_patch 0 3) 0 1 5 []
     = EvaluateFaceVarying recording_ops adaptive_tables 0 (first_patch 0 3) 0 1 5 []
   \<and> EvaluateFaceVarying recording_ops adaptive_tables 0 (first_patch 0 3) 0 1 5 []
     = Inr [BoundaryPatch [] (Weights BSpline 0 0 1) 5]"
proof -
  let ?tbl' = "uniform_tables\<lparr>fvarChannels := fvarChannels adaptive_tables\<rparr>"
  have v: "GetFVarPatchValues adaptive_tables 0 (first_patch 0 3)
             = GetFVarPatchValues ?tbl' 0 (first_patch 0 3)"
    and ty: "GetFVarPatchType adaptive_tables 0 (first_patch 0 3)
             = GetFVarPatchType ?tbl' 0 (first_patch 0 3)"
    by (simp_all add: GetFVarPatchValues_def GetFVarPatchType_def)
  have e: "EvaluateFaceVarying recording_ops adaptive_tables 0 (first_patch 0 3) 0 1 5 []
     = Inr [BoundaryPatch [] (Weights BSpline 0 0 1) 5]"
    by (simp add: EvaluateFaceVarying_def c_assert_def BitField_Clear_def
        example_defs accessor_defs)
  from EvaluateFaceVarying_reads_channel_only
         [of adaptive_tables 0 "first_patch 0 3" ?tbl' recording_ops 0 1 5 "[]" "[7, 7, 7]"]
  show ?thesis
    using v ty e by simp
qed

text \<open>
  The whole dispatch of \<open>EvaluateFaceVarying\<close>, for a handle the channel resolves:
  \<open>TRIANGLES\<close> is served as \<open>REGULAR\<close>, every type outside the five of the switch fails
  \<^verbatim>\<open>assert(0)\<close>, and the destination reaches the interpolation routine as it came in.
\<close>

theorem EvaluateFaceVarying_dispatch:
  assumes "GetFVarPatchValues tbl channel handle = Some cvs"
    and "GetFVarPatchType tbl channel handle = Some ty"
  shows "EvaluateFaceVarying ops tbl channel handle s t src dst =
           (if ty = QUADS then
              Inr (InterpolateBilinearPatch ops cvs
                     (GetBilinearWeights ops BitField_Clear s t) src dst)
            else if ty = TRIANGLES \<or> ty = REGULAR then
              Inr (InterpolateRegularPatch ops cvs
                     (GetBSplineWeights ops BitField_Clear s t) src dst)
            else if ty = BOUNDARY then
              Inr (InterpolateBoundaryPatch ops cvs
                     (GetBSplineWeights ops BitField_Clear s t) src dst)
            else if ty = CORNER then
              Inr (InterpolateCornerPatch ops cvs
                     (GetBSplineWeights ops BitField_Clear s t) src dst)
            else Inl (UnsupportedType, dst))"
  using assms
  by (cases ty)
     (simp_all add: EvaluateFaceVarying_def c_assert_def literal_as_condition_def)

theorem EvaluateFaceVarying_dispatch_witness:
  "EvaluateFaceVarying recording_ops adaptive_tables 0 (first_patch 0 4) 0 1 5
      [CornerPatch [9] (Weights BSpline 0 0 0) 8]
     = Inl (UnsupportedType, [CornerPatch [9] (Weights BSpline 0 0 0) 8])"
proof -
  have v: "GetFVarPatchValues adaptive_tables 0 (first_patch 0 4) = Some []"
    and ty: "GetFVarPatchType adaptive_tables 0 (first_patch 0 4) = Some GREGORY"
    by (simp_all add: example_defs accessor_defs)
  show ?thesis
    using EvaluateFaceVarying_dispatch [OF v ty, of recording_ops 0 1 5] by simp
qed

subsection \<open>Gregory-basis patches\<close>

text \<open>
  C5. For a patch of the table whose array descriptor has type \<open>GREGORY_BASIS\<close>,
  \<open>Evaluate\<close> fails the assertion on the end-cap vertex stencil table when that pointer
  is null; otherwise it returns the result of \<open>InterpolateGregoryPatch\<close> on the stencil
  table, the handle's \<open>vertIndex\<close>, \<open>(s, t)\<close>, the Bezier weights of the patch's bitfield
  and \<open>(s, t)\<close>, the source and the cleared destination. The patch's control-vertex
  slice is not read: the outcome is the same whatever the control-vertex table holds.
\<close>

theorem Evaluate_gregory_basis:
  assumes "at (patchArrays tbl) (arrayIndex handle) = Some pa"
    and "GetType (pa_desc pa) = GREGORY_BASIS"
    and "0 < pa_numPatches pa"
    and "at (paramTable tbl) (patchIndex handle) = Some param"
  shows "Evaluate ops tbl handle s t src dst =
           (case endcapVertexStencilTables tbl of
              None \<Rightarrow> Inl (MissingStencilTables, Clear ops dst)
            | Some stencils \<Rightarrow>
                Inr (InterpolateGregoryPatch ops stencils (vertIndex handle) s t
                       (GetBezierWeights ops (bitField param) s t) src (Clear ops dst)))
         \<and> Evaluate ops (tbl\<lparr>patchVerts := pv\<rparr>) handle s t src dst
             = Evaluate ops tbl handle s t src dst"
proof -
  have "at (patchArrays (tbl\<lparr>patchVerts := pv\<rparr>)) (arrayIndex handle) = Some pa"
    and "at (paramTable (tbl\<lparr>patchVerts := pv\<rparr>)) (patchIndex handle) = Some param"
    using assms(1,4) by simp_all
  from Evaluate_GREGORY_BASIS [OF this(1) assms(2,3) this(2), of ops s t src dst]
       Evaluate_GREGORY_BASIS [OF assms, of ops s t src dst]
  show ?thesis by simp
qed

theorem Evaluate_gregory_basis_witness:
  "GetPatchVertices adaptive_tables (first_patch 3 3) = None \<and>
   Evaluate recording_ops adaptive_tables (first_patch 3 3) 0 1 5 []
     = Inr [GregoryPatch 7 0 0 1 (Weights Bezier 3 0 1) 5] \<and>
   Evaluate recording_ops (adaptive_tables\<lparr>patchVerts := []\<rparr>) (first_patch 3 3) 0 1 5 []
     = Inr [GregoryPatch 7 0 0 1 (Weights Bezier 3 0 1) 5]"
proof -
  let ?pa = "adaptive_array GREGORY_BASIS 20 36 3"
  have 1: "at (patchArrays adaptive_tables) (arrayIndex (first_patch 3 3)) = Some ?pa"
    by (simp add: at_def adaptive_tables_def first_patch_def)
  have 2: "GetType (pa_desc ?pa) = GREGORY_BASIS" "0 < pa_numPatches ?pa"
    by (simp_all add: adaptive_array_def)
  have 3: "at (paramTable adaptive_tables) (patchIndex (first_patch 3 3)) = Some \<lparr>bitField = 3\<rparr>"
    by (simp add: at_def adaptive_tables_def first_patch_def)
  have 4: "GetPatchVertices adaptive_tables (first_patch 3 3) = None"
    by (simp add: example_defs accessor_defs)
  have 5: "endcapVertexStencilTables adaptive_tables = Some 7"
    "vertIndex (first_patch 3 3) = 0"
    by (simp_all add: example_defs)
  show ?thesis
    using Evaluate_gregory_basis [OF 1 2 3, of recording_ops 0 1 5 "[]" "[]"] 4 5
    by (simp add: recording_ops_def)
qed

subsection \<open>The feature-adaptivity precondition\<close>

text \<open>
  C6. \<open>Evaluate\<close> requires \<open>IsFeatureAdaptive\<close>: on a feature-adaptive table the
  feature-adaptivity assertion is never the one that fails, and on any other table the
  call ends with that assertion failed, the destination untouched, whatever the handle.
\<close>

theorem Evaluate_requires_feature_adaptive:
  "(IsFeatureAdaptive tbl \<longrightarrow>
      (\<forall>d. Evaluate ops tbl handle s t src dst \<noteq> Inl (NotFeatureAdaptive, d)))
   \<and> (\<not> IsFeatureAdaptive tbl \<longrightarrow>
      Evaluate ops tbl handle s t src dst = Inl (NotFeatureAdaptive, dst))"
  by (cases "GetPatchArrayDescriptor tbl (arrayIndex handle)";
      cases "at (paramTable tbl) (patchIndex handle)")
     (auto simp: Evaluate_def c_assert_def bspline_switch_def Let_def
        split: option.splits Type.splits)

theorem Evaluate_requires_feature_adaptive_witness:
  "IsFeatureAdaptive adaptive_tables \<and>
   (\<forall>d. Evaluate recording_ops adaptive_tables (first_patch 4 4) 0 1 5 []
          \<noteq> Inl (NotFeatureAdaptive, d)) \<and>
   \<not> IsFeatureAdaptive uniform_tables \<and>
   Evaluate recording_ops uniform_tables (first_patch 0 0) 0 1 5 [] = Inl (NotFeatureAdaptive, [])"
proof -
  have a: "IsFeatureAdaptive adaptive_tables"
    by (simp add: example_defs accessor_defs)
  have u: "\<not> IsFeatureAdaptive uniform_tables"
    by (simp add: example_defs accessor_defs)
  from Evaluate_requires_feature_adaptive
         [of adaptive_tables recording_ops "first_patch 4 4" 0 1 5 "[]"]
       Evaluate_requires_feature_adaptive
         [of uniform_tables recording_ops "first_patch 0 0" 0 1 5 "[]"]
  show ?thesis
    using a u by simp
qed

subsection \<open>The B-spline band of the dispatch\<close>

text \<open>
  C7. \<open>Evaluate\<close> takes the B-spline branch exactly for the types in the ordinal band
  from \<open>REGULAR\<close> to \<open>CORNER\<close>, which in the enum's order is the set \<open>REGULAR\<close>,
  \<open>SINGLE_CREASE\<close>, \<open>BOUNDARY\<close>, \<open>CORNER\<close>. For a patch of one of these types the outcome
  is that of the inner switch entered with \<open>GetBSplineWeights\<close> of the patch's bitfield
  and \<open>(s, t)\<close>; for a patch of any other type the outcome does not depend on
  \<open>GetBSplineWeights\<close> at all.
\<close>

theorem Evaluate_bspline_family:
  "(in_bspline_band ty \<longleftrightarrow> ty \<in> {REGULAR, SINGLE_CREASE, BOUNDARY, CORNER})
   \<and> (IsFeatureAdaptive tbl \<and> at (paramTable tbl) (patchIndex handle) = Some param \<and>
      GetPatchArrayDescriptor tbl (arrayIndex handle) = Some desc \<and>
      GetPatchVertices tbl handle = Some cvs \<and>
      GetType desc \<in> {REGULAR, SINGLE_CREASE, BOUNDARY, CORNER}
        \<longrightarrow> Evaluate ops tbl handle s t src dst =
              bspline_switch ops (GetType desc) cvs
                (GetBSplineWeights ops (bitField param) s t) src (Clear ops dst))
   \<and> (GetPatchArrayDescriptor tbl (arrayIndex handle) = Some desc \<and>
      GetType desc \<notin> {REGULAR, SINGLE_CREASE, BOUNDARY, CORNER}
        \<longrightarrow> Evaluate (ops\<lparr>GetBSplineWeights := g\<rparr>) tbl handle s t src dst =
              Evaluate ops tbl handle s t src dst)"
proof (intro conjI impI)
  show "in_bspline_band ty \<longleftrightarrow> ty \<in> {REGULAR, SINGLE_CREASE, BOUNDARY, CORNER}"
    by (simp add: in_bspline_band_iff)
next
  assume "IsFeatureAdaptive tbl \<and> at (paramTable tbl) (patchIndex handle) = Some param \<and>
      GetPatchArrayDescriptor tbl (arrayIndex handle) = Some desc \<and>
      GetPatchVertices tbl handle = Some cvs \<and>
      GetType desc \<in> {REGULAR, SINGLE_CREASE, BOUNDARY, CORNER}"
  then show "Evaluate ops tbl handle s t src dst =
              bspline_switch ops (GetType desc) cvs
                (GetBSplineWeights ops (bitField param) s t) src (Clear ops dst)"
    by (simp add: Evaluate_def c_assert_def in_bspline_band_iff)
next
  assume "GetPatchArrayDescriptor tbl (arrayIndex handle) = Some desc \<and>
      GetType desc \<notin> {REGULAR, SINGLE_CREASE, BOUNDARY, CORNER}"
  then show "Evaluate (ops\<lparr>GetBSplineWeights := g\<rparr>) tbl handle s t src dst =
              Evaluate ops tbl handle s t src dst"
    by (simp add: Evaluate_def c_assert_def in_bspline_band_iff Let_def split: option.splits)
qed

theorem Evaluate_bspline_family_witness:
  "in_bspline_band BOUNDARY \<and> \<not> in_bspline_band GREGORY \<and>
   Evaluate recording_ops adaptive_tables (first_patch 0 0) 0 1 5 []
     = Inr [RegularPatch [0, 1, 2, 3, 4, 5, 6, 7, 8, 9, 10, 11, 12, 13, 14, 15]
              (Weights BSpline 0 0 1) 5] \<and>
   Evaluate (recording_ops\<lparr>GetBSplineWeights := Weights Bezier\<rparr>) adaptive_tables
       (first_patch 2 2) 0 1 5 []
     = Evaluate recording_ops adaptive_tables (first_patch 2 2) 0 1 5 []"
proof -
  let ?cvs = "[0, 1, 2, 3, 4, 5, 6, 7, 8, 9, 10, 11, 12, 13, 14, 15] :: Index list"
  have a: "IsFeatureAdaptive adaptive_tables"
    by (simp add: example_defs accessor_defs)
  have p: "at (paramTable adaptive_tables) (patchIndex (first_patch 0 0)) = Some \<lparr>bitField = 0\<rparr>"
    by (simp add: example_defs accessor_defs)
  have d0: "GetPatchArrayDescriptor adaptive_tables (arrayIndex (first_patch 0 0))
             = Some \<lparr> GetType = REGULAR, GetNumControlVertices = 16 \<rparr>"
    by (simp add: example_defs accessor_defs)
  have v: "GetPatchVertices adaptive_tables (first_patch 0 0) = Some ?cvs"
    by (simp add: example_defs accessor_defs)
  have d2: "GetPatchArrayDescriptor adaptive_tables (arrayIndex (first_patch 2 2))
             = Some \<lparr> GetType = QUADS, GetNumControlVertices = 4 \<rparr>"
    by (simp add: example_defs accessor_defs)
  from Evaluate_bspline_family
         [of BOUNDARY adaptive_tables "first_patch 0 0" "\<lparr>bitField = 0\<rparr>"
             "\<lparr> GetType = REGULAR, GetNumControlVertices = 16 \<rparr>" ?cvs recording_ops 0 1 5 "[]"]
       Evaluate_bspline_family
         [of GREGORY adaptive_tables "first_patch 2 2" _
             "\<lparr> GetType = QUADS, GetNumControlVertices = 4 \<rparr>" _ recording_ops 0 1 5 "[]"
             "Weights Bezier"]
  show ?thesis
    using a p d0 v d2 by (simp add: bspline_switch_def recording_ops_def)
qed

subsection \<open>Unsupported types\<close>

text \<open>
  C9. For a patch of the table whose array descriptor has type \<open>GREGORY\<close> or
  \<open>GREGORY_BOUNDARY\<close>, or any type other than the six the dispatch serves (\<open>REGULAR\<close>,
  \<open>SINGLE_CREASE\<close>, \<open>BOUNDARY\<close>, \<open>CORNER\<close>, \<open>GREGORY_BASIS\<close>, \<open>QUADS\<close>), \<open>Evaluate\<close> fails
  \<^verbatim>\<open>assert(0)\<close>, and the destination is then the cleared one: nothing was accumulated.
\<close>

theorem Evaluate_unsupported_type:
  assumes "at (patchArrays tbl) (arrayIndex handle) = Some pa"
    and "GetType (pa_desc pa) \<in> {GREGORY, GREGORY_BOUNDARY} \<or>
         GetType (pa_desc pa) \<notin> {REGULAR, SINGLE_CREASE, BOUNDARY, CORNER, GREGORY_BASIS, QUADS}"
    and "0 < pa_numPatches pa"
    and "at (paramTable tbl) (patchIndex handle) = Some param"
  shows "Evaluate ops tbl handle s t src dst = Inl (UnsupportedType, Clear ops dst)"
proof -
  from assms(2) have ty:
    "GetType (pa_desc pa) \<notin> {REGULAR, SINGLE_CREASE, BOUNDARY, CORNER, GREGORY_BASIS, QUADS}"
    by auto
  then have "IsFeatureAdaptive tbl"
    using assms(1,3) by (auto intro: IsFeatureAdaptive_of_array)
  then show ?thesis
    using assms(1,4) ty
    by (simp add: Evaluate_def c_assert_def GetPatchArrayDescriptor_def in_bspline_band_iff)
qed

theorem Evaluate_unsupported_type_witness:
  "Evaluate recording_ops adaptive_tables (first_patch 4 4) 0 1 5
     [RegularPatch [] (Weights BSpline 0 0 0) 0] = Inl (UnsupportedType, [])"
proof -
  let ?pa = "adaptive_array GREGORY 4 36 4"
  have 1: "at (patchArrays adaptive_tables) (arrayIndex (first_patch 4 4)) = Some ?pa"
    by (simp add: at_def adaptive_tables_def first_patch_def)
  have 2: "GetType (pa_desc ?pa) \<in> {GREGORY, GREGORY_BOUNDARY} \<or>
         GetType (pa_desc ?pa) \<notin> {REGULAR, SINGLE_CREASE, BOUNDARY, CORNER, GREGORY_BASIS, QUADS}"
    and 3: "0 < pa_numPatches ?pa"
    by (simp_all add: adaptive_array_def)
  have 4: "at (paramTable adaptive_tables) (patchIndex (first_patch 4 4)) = Some \<lparr>bitField = 4\<rparr>"
    by (simp add: at_def adaptive_tables_def first_patch_def)
  show ?thesis
    using Evaluate_unsupported_type [OF 1 2 3 4, of recording_ops 0 1 5]
    by (simp add: recording_ops_def)
qed

subsection \<open>EvaluateBilinear\<close>

text \<open>
  C8. For a handle whose control-vertex slice and param entry the table resolves,
  \<open>EvaluateBilinear\<close> fails its size assertion, the destination untouched, unless the
  slice has exactly 4 entries; when it has, the call returns the result of
  \<open>InterpolateBilinearPatch\<close> on the slice, the bilinear weights of the patch's stored
  bitfield and \<open>(s, t)\<close>, the source and the cleared destination. The stored patch types
  play no part, and so neither does the table's being feature-adaptive: the outcome is
  the same on the table with its types replaced in any way.
\<close>

theorem EvaluateBilinear_always_bilinear:
  "(GetPatchVertices tbl handle = Some cvs \<and>
    at (paramTable tbl) (patchIndex handle) = Some param
      \<longrightarrow> EvaluateBilinear ops tbl handle s t src dst =
            (if length cvs = 4
             then Inr (InterpolateBilinearPatch ops cvs
                         (GetBilinearWeights ops (bitField param) s t) src (Clear ops dst))
             else Inl (BadPatchSize, dst)))
   \<and> EvaluateBilinear ops (retype f tbl) handle s t src dst =
       EvaluateBilinear ops tbl handle s t src dst"
  by (simp add: EvaluateBilinear_def c_assert_def GetPatchVertices_retype paramTable_retype
      split: option.splits)

theorem EvaluateBilinear_always_bilinear_witness:
  "EvaluateBilinear recording_ops adaptive_tables (first_patch 4 4) 0 1 5
     [RegularPatch [] (Weights BSpline 0 0 0) 0]
     = Inr [BilinearPatch [24, 25, 26, 27] (Weights Bilinear 4 0 1) 5] \<and>
   EvaluateBilinear recording_ops adaptive_tables (first_patch 0 0) 0 1 5 []
     = Inl (BadPatchSize, []) \<and>
   IsFeatureAdaptive adaptive_tables \<and>
   \<not> IsFeatureAdaptive (retype (\<lambda>ty. QUADS) adaptive_tables) \<and>
   EvaluateBilinear recording_ops (retype (\<lambda>ty. QUADS) adaptive_tables) (first_patch 4 4) 0 1 5
     [RegularPatch [] (Weights BSpline 0 0 0) 0]
     = Inr [BilinearPatch [24, 25, 26, 27] (Weights Bilinear 4 0 1) 5]"
proof -
  let ?cvs = "[0, 1, 2, 3, 4, 5, 6, 7, 8, 9, 10, 11, 12, 13, 14, 15] :: Index list"
  have v4: "GetPatchVertices adaptive_tables (first_patch 4 4) = Some [24, 25, 26, 27]"
    by (simp add: example_defs accessor_defs)
  have p4: "at (paramTable adaptive_tables) (patchIndex (first_patch 4 4)) = Some \<lparr>bitField = 4\<rparr>"
    by (simp add: example_defs accessor_defs)
  have v0: "GetPatchVertices adaptive_tables (first_patch 0 0) = Some ?cvs"
    by (simp add: example_defs accessor_defs)
  have p0: "at (paramTable adaptive_tables) (patchIndex (first_patch 0 0)) = Some \<lparr>bitField = 0\<rparr>"
    by (simp add: example_defs accessor_defs)
  have a: "IsFeatureAdaptive adaptive_tables"
    by (simp add: example_defs accessor_defs)
  have u: "\<not> IsFeatureAdaptive (retype (\<lambda>ty. QUADS) adaptive_tables)"
    by (simp add: retype_def example_defs accessor_defs)
  from EvaluateBilinear_always_bilinear
         [of adaptive_tables "first_patch 4 4" "[24, 25, 26, 27]" "\<lparr>bitField = 4\<rparr>"
             recording_ops 0 1 5 "[RegularPatch [] (Weights BSpline 0 0 0) 0]" "\<lambda>ty. QUADS"]
       EvaluateBilinear_always_bilinear
         [of adaptive_tables "first_patch 0 0" ?cvs "\<lparr>bitField = 0\<rparr>"
             recording_ops 0 1 5 "[]"]
  show ?thesis
    using v4 p4 v0 p0 a u by (simp add: recording_ops_def)
qed

subsection \<open>Clearing before accumulating\<close>

text \<open>
  \<open>Evaluate\<close> and \<open>EvaluateBilinear\<close> hand the cleared destination to the interpolation
  routines: a call that returns gives the same result from any destination that clears
  to the same value.
\<close>

theorem Evaluate_clears_before_accumulating:
  "(Evaluate ops tbl handle s t src dst = Inr r \<and> Clear ops dst' = Clear ops dst
      \<longrightarrow> Evaluate ops tbl handle s t src dst' = Inr r)
   \<and> (EvaluateBilinear ops tbl handle s t src dst = Inr r \<and> Clear ops dst' = Clear ops dst
      \<longrightarrow> EvaluateBilinear ops tbl handle s t src dst' = Inr r)"
proof (intro conjI impI)
  assume "Evaluate ops tbl handle s t src dst = Inr r \<and> Clear ops dst' = Clear ops dst"
  then show "Evaluate ops tbl handle s t src dst' = Inr r"
    by (auto simp: Evaluate_def c_assert_def Let_def bspline_switch_def
        split: if_splits option.splits Type.splits)
next
  assume "EvaluateBilinear ops tbl handle s t src dst = Inr r \<and> Clear ops dst' = Clear ops dst"
  then show "EvaluateBilinear ops tbl handle s t src dst' = Inr r"
    by (auto simp: EvaluateBilinear_def c_assert_def Let_def
        split: if_splits option.splits)
qed

theorem Evaluate_clears_before_accumulating_witness:
  "Evaluate recording_ops adaptive_tables (first_patch 2 2) 0 1 5
      [CornerPatch [9] (Weights BSpline 0 0 0) 8]
     = Inr [BilinearPatch [20, 21, 22, 23] (Weights Bilinear 2 0 1) 5] \<and>
   EvaluateBilinear recording_ops adaptive_tables (first_patch 2 2) 0 1 5
      [CornerPatch [9] (Weights BSpline 0 0 0) 8]
     = Inr [BilinearPatch [20, 21, 22, 23] (Weights Bilinear 2 0 1) 5]"
proof -
  let ?r = "[BilinearPatch [20, 21, 22, 23] (Weights Bilinear 2 0 1) 5]"
  have e: "Evaluate recording_ops adaptive_tables (first_patch 2 2) 0 1 5 [] = Inr ?r"
    by (simp add: Evaluate_def c_assert_def in_bspline_band_def example_defs accessor_defs)
  have b: "EvaluateBilinear recording_ops adaptive_tables (first_patch 2 2) 0 1 5 [] = Inr ?r"
    by (simp add: EvaluateBilinear_def c_assert_def example_defs accessor_defs)
  have c: "Clear recording_ops [CornerPatch [9] (Weights BSpline 0 0 0) 8] = Clear recording_ops []"
    by (simp add: recording_ops_def)
  from Evaluate_clears_before_accumulating
         [of recording_ops adaptive_tables "first_patch 2 2" 0 1 5 "[]" ?r
             "[CornerPatch [9] (Weights BSpline 0 0 0) 8]"]
  show ?thesis
    using e b c by simp
qed

end
